theory Spec2Isabelle
  imports Main "HOL-Library.Word"
begin

unbundle bit_operations_syntax

section \<open>Data model of \<open>main.cpp\<close>\<close>

text \<open>
  The program reads one file into a \<open>std::vector\<close> of \<open>uint8_t\<close>, overlays the ELF32 header
  and the section header table on it, sums seven words of the vector table and stores the
  negated sum in the eighth word. Bytes are \<open>8 word\<close>, \<open>uint16_t\<close> is \<open>16 word\<close>,
  \<open>uint32_t\<close> is \<open>32 word\<close>; the buffer is a list of bytes.

  Two facts of the platform are fixed here, as the program's banner does
  (\<open>ELFdwt for little endian\<close>): the structs are overlaid on a little-endian host that
  accepts unaligned loads, so a field of a struct is the little-endian value of its bytes;
  and \<open>size_t\<close> has 64 bits, so the sums of the size checks are taken modulo \<open>2 ^ 64\<close>.
\<close>

type_synonym u8 = "8 word"
type_synonym u16 = "16 word"
type_synonym u32 = "32 word"

text \<open>\<open>elf::type\<close>: an enum class over \<open>uint32_t\<close>; any value can be cast to it.\<close>

definition type_undefined :: u32 where
  "type_undefined = 0"

definition type_progbits :: u32 where
  "type_progbits = 1"

text \<open>\<open>elf::header\<close>, 52 bytes without padding.\<close>

record header =
  e_ident :: "u8 list"
  e_type :: u16
  e_machine :: u16
  e_version :: u32
  e_entry :: u32
  e_phoff :: u32
  e_shoff :: u32
  e_flags :: u32
  e_ehsize :: u16
  e_phentsize :: u16
  e_phnum :: u16
  e_shentsize :: u16
  e_shnum :: u16
  e_shstrndx :: u16

text \<open>\<open>elf::sector_header\<close>, 40 bytes without padding.\<close>

record sector_header =
  sh_name :: u32
  sh_type :: u32
  sh_flags :: u32
  sh_addr :: u32
  sh_offset :: u32
  sh_size :: u32
  sh_link :: u32
  sh_info :: u32
  sh_addralign :: u32
  sh_entsize :: u32

definition e_ident_size :: nat where
  "e_ident_size = 16"

definition sizeof_header :: nat where
  "sizeof_header = 52"

definition sizeof_sector_header :: nat where
  "sizeof_sector_header = 40"

definition sizeof_uint32 :: nat where
  "sizeof_uint32 = 4"

text \<open>Arithmetic in \<open>size_t\<close>: the value modulo \<open>2 ^ 64\<close>.\<close>

definition size_t :: "nat \<Rightarrow> nat" where
  "size_t n = n mod 2 ^ 64"

subsection \<open>Reading fields from the buffer\<close>

definition le16 :: "u8 list \<Rightarrow> nat \<Rightarrow> u16" where
  "le16 raw off = ucast (raw ! off) OR push_bit 8 (ucast (raw ! (off + 1)))"

text \<open>
  Also line 199: \<open>ptr[0] | (ptr[1] << 8) | (ptr[2] << 16) | (ptr[3] << 24)\<close>, converted to
  \<open>uint32_t\<close>.
\<close>

definition le32 :: "u8 list \<Rightarrow> nat \<Rightarrow> u32" where
  "le32 raw off =
     ucast (raw ! off) OR push_bit 8 (ucast (raw ! (off + 1)))
       OR push_bit 16 (ucast (raw ! (off + 2))) OR push_bit 24 (ucast (raw ! (off + 3)))"

text \<open>Line 151: \<open>*reinterpret_cast<elf::header*>(raw.data())\<close>.\<close>

definition decode_header :: "u8 list \<Rightarrow> header" where
  "decode_header raw =
     \<lparr> e_ident = take e_ident_size raw,
       e_type = le16 raw 16,
       e_machine = le16 raw 18,
       e_version = le32 raw 20,
       e_entry = le32 raw 24,
       e_phoff = le32 raw 28,
       e_shoff = le32 raw 32,
       e_flags = le32 raw 36,
       e_ehsize = le16 raw 40,
       e_phentsize = le16 raw 42,
       e_phnum = le16 raw 44,
       e_shentsize = le16 raw 46,
       e_shnum = le16 raw 48,
       e_shstrndx = le16 raw 50 \<rparr>"

text \<open>A \<open>sector_header\<close> overlaid on the buffer at byte offset \<open>off\<close>.\<close>

definition decode_sector_header :: "u8 list \<Rightarrow> nat \<Rightarrow> sector_header" where
  "decode_sector_header raw off =
     \<lparr> sh_name = le32 raw off,
       sh_type = le32 raw (off + 4),
       sh_flags = le32 raw (off + 8),
       sh_addr = le32 raw (off + 12),
       sh_offset = le32 raw (off + 16),
       sh_size = le32 raw (off + 20),
       sh_link = le32 raw (off + 24),
       sh_info = le32 raw (off + 28),
       sh_addralign = le32 raw (off + 32),
       sh_entsize = le32 raw (off + 36) \<rparr>"

text \<open>
  Lines 170 and 174: \<open>sections\<close> points at \<open>raw.data() + header.e_shoff\<close> and
  \<open>sections[i]\<close> is pointer arithmetic on \<open>elf::sector_header*\<close>.
\<close>

definition sections :: "u8 list \<Rightarrow> header \<Rightarrow> nat \<Rightarrow> sector_header" where
  "sections raw h i = decode_sector_header raw (unat (e_shoff h) + i * sizeof_sector_header)"

section \<open>The checksum\<close>

text \<open>Lines 102 to 110: the loop adds every element to \<open>ret\<close>, starting from 0.\<close>

definition calculate_crc :: "u32 list \<Rightarrow> u32" where
  "calculate_crc data = 0 - foldl (\<lambda>ret d. ret + d) 0 data"

section \<open>Results of a run\<close>

text \<open>
  \<open>main\<close> leaves through one of eight \<open>return -1\<close> statements, each after printing its
  own line, or runs to its end. The constructors of \<open>error\<close> name the eight exits in the
  order of the source; \<open>message\<close> is the line each one prints.
\<close>

datatype error =
    MissingArgument
  | EmptyOrUnreadableFile
  | InvalidSignature
  | TooSmallForHeader
  | TooFewSections
  | TooSmallForSectionTable
  | WrongSectionType
  | TooSmallForVectorTable

fun message :: "error \<Rightarrow> string" where
  "message MissingArgument = ''Error: argument expected''"
| "message EmptyOrUnreadableFile = ''Error: could not open file''"
| "message InvalidSignature = ''Error: invalid elf file (no header)''"
| "message TooSmallForHeader = ''Error: invalid elf file (file to small, header)''"
| "message TooFewSections = ''Error: invalid elf file (not enough sections)''"
| "message TooSmallForSectionTable = ''Error: invalid elf file (file to small, sections)''"
| "message WrongSectionType = ''Error: first section does not have the progbits flag set''"
| "message TooSmallForVectorTable = ''Error: invalid elf file (file to small, vectors)''"

text \<open>
  A stage either reports an error or reads the buffer past its end, which the language
  leaves undefined.
\<close>

datatype failure = Reported error | OutOfBoundsRead

section \<open>Validation\<close>

text \<open>
  Line 137: \<open>std::equal(first1, last1, first2)\<close> walks both ranges together and stops at
  the first difference. It takes no end of the second range: when that range is used up
  before a difference is found, the next read is past the end of the buffer (\<open>None\<close>).
\<close>

fun std_equal :: "'a list \<Rightarrow> 'a list \<Rightarrow> bool option" where
  "std_equal [] ys = Some True"
| "std_equal (x # xs) [] = None"
| "std_equal (x # xs) (y # ys) = (if x = y then std_equal xs ys else Some False)"

definition elf_signature :: "u8 list" where
  "elf_signature = [0x7f, 0x45, 0x4c, 0x46]"

text \<open>Lines 133 to 167, from the signature to the size of the section table.\<close>

definition validate :: "u8 list \<Rightarrow> failure + header" where
  "validate raw =
     (case std_equal elf_signature raw of
        None \<Rightarrow> Inl OutOfBoundsRead
      | Some False \<Rightarrow> Inl (Reported InvalidSignature)
      | Some True \<Rightarrow>
          if length raw < sizeof_header then Inl (Reported TooSmallForHeader)
          else
            let h = decode_header raw in
            if e_shnum h < 2 then Inl (Reported TooFewSections)
            else if length raw
                < size_t (unat (e_shoff h) + size_t (unat (e_shnum h) * sizeof_sector_header))
              then Inl (Reported TooSmallForSectionTable)
            else Inr h)"

text \<open>
  Lines 169 to 188. \<open>vectors\<close> is a reference into the buffer; the buffer is not written
  before line 215 and \<open>vectors\<close> is not read after line 212, so its fields are those of
  the buffer as loaded.
\<close>

definition locate :: "u8 list \<Rightarrow> header \<Rightarrow> failure + sector_header" where
  "locate raw h =
     (let vectors = sections raw h 1 in
      if sh_type vectors \<noteq> type_progbits then Inl (Reported WrongSectionType)
      else if length raw < size_t (unat (sh_offset vectors) + 8 * sizeof_uint32)
        then Inl (Reported TooSmallForVectorTable)
      else Inr vectors)"

section \<open>Checksum input and patch\<close>

text \<open>Lines 191 to 200: the seven words at the start of the section.\<close>

definition crc_data :: "u8 list \<Rightarrow> sector_header \<Rightarrow> u32 list" where
  "crc_data raw vectors =
     map (\<lambda>i. le32 raw (unat (sh_offset vectors) + i * sizeof_uint32)) [0..<7]"

text \<open>Lines 212 to 218: the four bytes of the eighth word, lowest byte first.\<close>

definition patch :: "u8 list \<Rightarrow> sector_header \<Rightarrow> u32 \<Rightarrow> u8 list" where
  "patch raw vectors crc =
     (let location = unat (sh_offset vectors) + 7 * sizeof_uint32 in
      raw[location := ucast (crc AND 0xff),
          location + 1 := ucast (drop_bit 8 crc AND 0xff),
          location + 2 := ucast (drop_bit 16 crc AND 0xff),
          location + 3 := ucast (drop_bit 24 crc AND 0xff)])"

text \<open>Lines 133 to 218 on a loaded buffer: the checksum and the patched buffer.\<close>

definition process :: "u8 list \<Rightarrow> failure + (u32 \<times> u8 list)" where
  "process raw =
     (case validate raw of
        Inl f \<Rightarrow> Inl f
      | Inr h \<Rightarrow>
          (case locate raw h of
             Inl f \<Rightarrow> Inl f
           | Inr vectors \<Rightarrow>
               let crc = calculate_crc (crc_data raw vectors)
               in Inr (crc, patch raw vectors crc)))"

section \<open>Files and the program\<close>

text \<open>
  The file system maps a path to the bytes of the file, or to \<open>None\<close> when it cannot be
  opened for reading. \<open>get_raw_file\<close> (lines 82 to 94) never fails: a stream that did not
  open yields no bytes.
\<close>

type_synonym fs = "string \<Rightarrow> u8 list option"

definition get_raw_file :: "fs \<Rightarrow> string \<Rightarrow> u8 list" where
  "get_raw_file files file = (case files file of None \<Rightarrow> [] | Some buffer \<Rightarrow> buffer)"

text \<open>
  Lines 221 to 230: the output stream truncates the file when it opens, and the bytes are
  copied into it. What the device does is a parameter of the run: the file cannot be
  opened for writing, or it is opened and takes at most \<open>n\<close> bytes. The program looks at
  neither the state of the stream nor the result of \<open>close\<close>.
\<close>

datatype write_env = CannotOpen | Accepts nat

definition write_file :: "write_env \<Rightarrow> fs \<Rightarrow> string \<Rightarrow> u8 list \<Rightarrow> fs" where
  "write_file wr files file buffer =
     (case wr of
        CannotOpen \<Rightarrow> files
      | Accepts n \<Rightarrow> files(file \<mapsto> take n buffer))"

text \<open>
  Lines 206 to 209: \<open>std::hex\<close>, fill character \<open>0\<close> and width 8 for each number. Every
  number printed is below \<open>2 ^ 32\<close>, so it has exactly eight digits.
\<close>

definition hex_digit :: "nat \<Rightarrow> char" where
  "hex_digit d = ''0123456789abcdef'' ! d"

definition hex8 :: "nat \<Rightarrow> string" where
  "hex8 n = map (\<lambda>k. hex_digit (n div 16 ^ k mod 16)) [7, 6, 5, 4, 3, 2, 1, 0]"

definition signature_line :: "u32 \<Rightarrow> string" where
  "signature_line crc =
     ''Signature over range: 0x'' @ hex8 0 @ '' - '' @ hex8 ((7 - 1) * sizeof_uint32)
       @ '': '' @ hex8 (7 * sizeof_uint32) @ '' = '' @ hex8 (unat crc)"

definition banner :: string where
  "banner = ''ELFdwt for little endian''"

text \<open>
  A run ends with an exit code, the lines printed and the file system it leaves, or it
  has read past the buffer and nothing is known about it.
\<close>

datatype outcome = Exited int "string list" fs | Undefined

text \<open>Lines 112 to 234. \<open>argc\<close> is the length of \<open>argv\<close>; falling off the end returns 0.\<close>

definition main :: "string list \<Rightarrow> write_env \<Rightarrow> fs \<Rightarrow> outcome" where
  "main argv wr files =
     (if length argv \<le> 1 then Exited (- 1) [banner, message MissingArgument] files
      else
        let raw = get_raw_file files (argv ! 1) in
        if length raw = 0 then Exited (- 1) [banner, message EmptyOrUnreadableFile] files
        else
          (case process raw of
             Inl OutOfBoundsRead \<Rightarrow> Undefined
           | Inl (Reported e) \<Rightarrow> Exited (- 1) [banner, message e] files
           | Inr (crc, patched) \<Rightarrow>
               Exited 0 [banner, signature_line crc, ''Processing completed, success'']
                 (write_file wr files (argv ! 1) patched)))"

section \<open>Images for the scenarios\<close>

text \<open>The inverse of \<open>le16\<close> and \<open>le32\<close>: the bytes of a value, lowest first.\<close>

definition le16_bytes :: "u16 \<Rightarrow> u8 list" where
  "le16_bytes w = [ucast w, ucast (drop_bit 8 w)]"

definition le32_bytes :: "u32 \<Rightarrow> u8 list" where
  "le32_bytes w = [ucast w, ucast (drop_bit 8 w), ucast (drop_bit 16 w), ucast (drop_bit 24 w)]"

text \<open>
  A small ELF32 image: the header (bytes 0 to 51) with \<open>e_shoff = 52\<close>, the null section
  header (52 to 91), the header of section 1 (92 to 131) and then \<open>body\<close> from byte 132
  on. The parameters are \<open>e_shentsize\<close>, \<open>e_shnum\<close>, and \<open>sh_type\<close> and \<open>sh_offset\<close> of
  section 1; every other field is 0.
\<close>

definition fixture :: "u16 \<Rightarrow> u16 \<Rightarrow> u32 \<Rightarrow> u32 \<Rightarrow> u8 list \<Rightarrow> u8 list" where
  "fixture shentsize shnum type offset body =
     elf_signature @ replicate 28 0 @ le32_bytes 52 @ replicate 10 0
       @ le16_bytes shentsize @ le16_bytes shnum @ [0, 0]
       @ replicate 40 0
       @ le32_bytes 0 @ le32_bytes type @ replicate 8 0 @ le32_bytes offset @ replicate 20 0
       @ body"

text \<open>Eight vector words: 1 to 7 and an empty checksum slot.\<close>

definition vector_bytes :: "u8 list" where
  "vector_bytes = concat (map le32_bytes [1, 2, 3, 4, 5, 6, 7, 0])"

section \<open>Notions used in the statements\<close>

text \<open>The exit code of a run, when it has one.\<close>

fun exit_code :: "outcome \<Rightarrow> int option" where
  "exit_code (Exited c out files) = Some c"
| "exit_code Undefined = None"

text \<open>
  For a buffer that passes the checks: the file offset of the section taken for the vector
  table, and the checksum of its first seven words.
\<close>

definition vectors_offset :: "u8 list \<Rightarrow> nat" where
  "vectors_offset raw = unat (sh_offset (sections raw (decode_header raw) 1))"

definition checksum :: "u8 list \<Rightarrow> u32" where
  "checksum raw = calculate_crc (crc_data raw (sections raw (decode_header raw) 1))"

text \<open>The byte ranges \<open>[a, a + n)\<close> and \<open>[b, b + m)\<close> do not meet.\<close>

definition apart :: "nat \<Rightarrow> nat \<Rightarrow> nat \<Rightarrow> nat \<Rightarrow> bool" where
  "apart a n b m = (a + n \<le> b \<or> b + m \<le> a)"

text \<open>
  The checks read five fields of the buffer: the signature (bytes 0 to 3), \<open>e_shoff\<close>
  (32 to 35), \<open>e_shnum\<close> (48 and 49), and \<open>sh_type\<close> and \<open>sh_offset\<close> of section 1. The
  checksum slot is clear when its four bytes meet none of them.
\<close>

definition slot_clear :: "u8 list \<Rightarrow> bool" where
  "slot_clear raw =
     (let slot = vectors_offset raw + 28;
          s = unat (e_shoff (decode_header raw)) + sizeof_sector_header
      in apart slot 4 0 4 \<and> apart slot 4 32 4 \<and> apart slot 4 48 2
           \<and> apart slot 4 (s + 4) 4 \<and> apart slot 4 (s + 16) 4)"

text \<open>
  A message names the file format when \<open>elf\<close> occurs in it, as it does in the five
  messages of the form \<open>invalid elf file (...)\<close>.
\<close>

fun contains :: "string \<Rightarrow> string \<Rightarrow> bool" where
  "contains sub [] = (sub = [])"
| "contains sub (c # cs) = (take (length sub) (c # cs) = sub \<or> contains sub cs)"

definition names_elf :: "string \<Rightarrow> bool" where
  "names_elf msg = (contains ''elf'' msg \<or> contains ''ELF'' msg)"

section \<open>Properties\<close>

subsection \<open>The size checks do not wrap\<close>

lemma size_t_sections:
  "size_t (unat (a :: u32) + size_t (unat (n :: u16) * sizeof_sector_header)) = unat a + unat n * 40"
proof -
  have a: "unat a < 2 ^ 32"
    using unsigned_less [of a] by simp
  have n: "unat n < 2 ^ 16"
    using unsigned_less [of n] by simp
  from a n show ?thesis
    by (simp add: size_t_def sizeof_sector_header_def)
qed

lemma size_t_vectors: "size_t (unat (a :: u32) + 8 * sizeof_uint32) = unat a + 32"
proof -
  have "unat a < 2 ^ 32"
    using unsigned_less [of a] by simp
  then show ?thesis
    by (simp add: size_t_def sizeof_uint32_def)
qed

subsection \<open>What a passed stage guarantees\<close>

lemma validate_Inr:
  "validate raw = Inr h \<longleftrightarrow>
     std_equal elf_signature raw = Some True \<and> 52 \<le> length raw \<and> h = decode_header raw
       \<and> 2 \<le> e_shnum h \<and> unat (e_shoff h) + unat (e_shnum h) * 40 \<le> length raw"
  by (auto simp: validate_def size_t_sections sizeof_header_def Let_def not_less
      split: option.splits bool.splits)

lemma locate_Inr:
  "locate raw h = Inr v \<longleftrightarrow>
     v = sections raw h 1 \<and> sh_type v = 1 \<and> unat (sh_offset v) + 32 \<le> length raw"
  by (auto simp: locate_def size_t_vectors type_progbits_def Let_def not_less)

lemma process_Inr:
  "process raw = Inr (crc, out) \<longleftrightarrow>
     (\<exists>h v. validate raw = Inr h \<and> locate raw h = Inr v
        \<and> crc = calculate_crc (crc_data raw v) \<and> out = patch raw v crc)"
  by (auto simp: process_def Let_def split: sum.splits)

subsection \<open>Bytes and words\<close>

lemma le32_update: "i < off \<or> off + 4 \<le> i \<Longrightarrow> le32 (xs[i := b]) off = le32 xs off"
  by (auto simp: le32_def)

lemma le16_update: "i < off \<or> off + 2 \<le> i \<Longrightarrow> le16 (xs[i := b]) off = le16 xs off"
  by (auto simp: le16_def)

lemma or_bytes_u32:
  "ucast (ucast (w :: u32) :: u8) OR push_bit 8 (ucast (ucast (drop_bit 8 w) :: u8))
     OR push_bit 16 (ucast (ucast (drop_bit 16 w) :: u8))
     OR push_bit 24 (ucast (ucast (drop_bit 24 w) :: u8)) = w"
  (is "?l = w")
proof (rule bit_word_eqI)
  fix n :: nat
  assume "n < LENGTH(32)"
  then have n: "n < 32"
    by simp
  consider "n < 8" | "8 \<le> n" "n < 16" | "16 \<le> n" "n < 24" | "24 \<le> n" "n < 32"
    using n by linarith
  then show "bit ?l n = bit w n"
    by cases (auto simp: bit_simps)
qed

lemma ucast_and_ff: "(ucast ((w :: u32) AND 0xff) :: u8) = ucast w"
proof -
  have m: "(0xff :: u32) = mask 8"
    by (simp add: mask_eq_exp_minus_1)
  show ?thesis
    unfolding m by (rule bit_word_eqI) (auto simp: bit_simps)
qed

lemma or_bytes_u16:
  "ucast (ucast (w :: u16) :: u8) OR push_bit 8 (ucast (ucast (drop_bit 8 w) :: u8)) = w"
  (is "?l = w")
proof (rule bit_word_eqI)
  fix n :: nat
  assume "n < LENGTH(16)"
  then have n: "n < 16"
    by simp
  consider "n < 8" | "8 \<le> n" "n < 16"
    using n by linarith
  then show "bit ?l n = bit w n"
    by cases (auto simp: bit_simps)
qed

subsection \<open>Fields of the scenario images\<close>

lemmas fixture_simps = fixture_def le32_bytes_def le16_bytes_def elf_signature_def

lemma length_fixture: "length (fixture es n t off body) = 132 + length body"
  by (simp add: fixture_simps)

lemma std_equal_fixture: "std_equal elf_signature (fixture es n t off body) = Some True"
  by (simp add: fixture_simps)

lemma e_shoff_fixture: "e_shoff (decode_header (fixture es n t off body)) = 52"
  by (simp add: decode_header_def le32_def fixture_simps nth_append)

lemma e_shnum_fixture: "e_shnum (decode_header (fixture es n t off body)) = n"
  by (simp add: decode_header_def le16_def fixture_simps nth_append or_bytes_u16)

lemma e_shentsize_fixture: "e_shentsize (decode_header (fixture es n t off body)) = es"
  by (simp add: decode_header_def le16_def fixture_simps nth_append or_bytes_u16)

lemma sections_1_fixture:
  "e_shoff h = 52 \<Longrightarrow> sections (fixture es n t off body) h (Suc 0) =
     \<lparr> sh_name = 0, sh_type = t, sh_flags = 0, sh_addr = 0, sh_offset = off, sh_size = 0,
       sh_link = 0, sh_info = 0, sh_addralign = 0, sh_entsize = 0 \<rparr>"
  by (simp add: sections_def sizeof_sector_header_def decode_sector_header_def le32_def
      fixture_simps nth_append or_bytes_u32)

lemma validate_fixture:
  "validate (fixture es n t off body) =
     (if n < 2 then Inl (Reported TooFewSections)
      else if 132 + length body < 52 + unat n * 40 then Inl (Reported TooSmallForSectionTable)
      else Inr (decode_header (fixture es n t off body)))"
  using size_t_sections [of 52 n]
  by (simp add: validate_def std_equal_fixture length_fixture sizeof_header_def Let_def
      e_shnum_fixture e_shoff_fixture)

lemma locate_fixture:
  "e_shoff h = 52 \<Longrightarrow> locate (fixture es n t off body) h =
     (if t \<noteq> 1 then Inl (Reported WrongSectionType)
      else if 132 + length body < unat off + 32 then Inl (Reported TooSmallForVectorTable)
      else Inr (sections (fixture es n t off body) h 1))"
  by (simp add: locate_def Let_def sections_1_fixture type_progbits_def size_t_vectors
      length_fixture)

lemma length_vector_bytes: "length vector_bytes = 32"
  by (simp add: vector_bytes_def le32_bytes_def)

lemma vectors_offset_fixture: "vectors_offset (fixture es n t off body) = unat off"
  by (simp add: vectors_offset_def sections_1_fixture e_shoff_fixture)

subsection \<open>The patch as a splice\<close>

lemma length_patch: "length (patch raw v crc) = length raw"
  by (simp add: patch_def Let_def)

lemma nth_patch_outside:
  "i < unat (sh_offset v) + 28 \<or> unat (sh_offset v) + 32 \<le> i \<Longrightarrow> patch raw v crc ! i = raw ! i"
  by (auto simp: patch_def Let_def sizeof_uint32_def)

lemma update4:
  assumes "p + 4 \<le> length xs"
  shows "xs[p := a, p + 1 := b, p + 2 := c, p + 3 := d] = take p xs @ [a, b, c, d] @ drop (p + 4) xs"
proof (rule nth_equalityI)
  show "length (xs[p := a, p + 1 := b, p + 2 := c, p + 3 := d])
      = length (take p xs @ [a, b, c, d] @ drop (p + 4) xs)"
    using assms by simp
next
  fix i
  assume "i < length (xs[p := a, p + 1 := b, p + 2 := c, p + 3 := d])"
  then have i: "i < length xs"
    by simp
  consider "i < p" | "i = p" | "i = p + 1" | "i = p + 2" | "i = p + 3" | "p + 4 \<le> i"
    by linarith
  then show "xs[p := a, p + 1 := b, p + 2 := c, p + 3 := d] ! i
      = (take p xs @ [a, b, c, d] @ drop (p + 4) xs) ! i"
  proof cases
    case 1
    then show ?thesis using assms by (simp add: nth_append)
  next
    case 2
    then show ?thesis using assms by (simp add: nth_append)
  next
    case 3
    then show ?thesis using assms by (simp add: nth_append)
  next
    case 4
    then show ?thesis using assms by (simp add: nth_append)
  next
    case 5
    then show ?thesis using assms by (simp add: nth_append)
  next
    case 6
    then have "(take p xs @ [a, b, c, d] @ drop (p + 4) xs) ! i = drop (p + 4) xs ! (i - (p + 4))"
      using assms by (simp add: nth_append)
    also have "\<dots> = xs ! i"
      using 6 i by simp
    finally show ?thesis
      using 6 by simp
  qed
qed

lemma patch_bytes:
  assumes "unat (sh_offset v) + 32 \<le> length raw"
  shows "patch raw v crc =
     take (unat (sh_offset v) + 28) raw @ le32_bytes crc @ drop (unat (sh_offset v) + 32) raw"
  using assms update4 [of "unat (sh_offset v) + 28" raw]
  by (simp add: patch_def Let_def sizeof_uint32_def ucast_and_ff le32_bytes_def add.assoc)

lemma slot_patch:
  assumes "unat (sh_offset v) + 32 \<le> length raw"
  shows "take 4 (drop (unat (sh_offset v) + 28) (patch raw v crc)) = le32_bytes crc"
  using assms by (simp add: patch_bytes le32_bytes_def)

lemma patch_patch:
  assumes "unat (sh_offset v) + 32 \<le> length raw"
  shows "patch (patch raw v crc) v crc = patch raw v crc"
proof -
  have "unat (sh_offset v) + 32 \<le> length (patch raw v crc)"
    using assms by (simp add: length_patch)
  then have "patch (patch raw v crc) v crc =
      take (unat (sh_offset v) + 28) (patch raw v crc) @ le32_bytes crc
        @ drop (unat (sh_offset v) + 32) (patch raw v crc)"
    by (rule patch_bytes)
  also have "\<dots> = take (unat (sh_offset v) + 28) raw @ le32_bytes crc
        @ drop (unat (sh_offset v) + 32) raw"
    using assms by (simp add: patch_bytes le32_bytes_def)
  also have "\<dots> = patch raw v crc"
    using assms by (simp add: patch_bytes)
  finally show ?thesis .
qed

lemma patch_offset: "sh_offset v' = sh_offset v \<Longrightarrow> patch raw v' crc = patch raw v crc"
  by (simp add: patch_def)

lemma le32_patch:
  "apart (unat (sh_offset v) + 28) 4 p 4 \<Longrightarrow> le32 (patch raw v crc) p = le32 raw p"
  by (auto simp: le32_def apart_def nth_patch_outside)

lemma le16_patch:
  "apart (unat (sh_offset v) + 28) 4 p 2 \<Longrightarrow> le16 (patch raw v crc) p = le16 raw p"
  by (auto simp: le16_def apart_def nth_patch_outside)

lemma take4_patch:
  "apart (unat (sh_offset v) + 28) 4 0 4 \<Longrightarrow> take 4 (patch raw v crc) = take 4 raw"
  by (simp add: apart_def patch_def Let_def sizeof_uint32_def)

lemma crc_data_patch: "crc_data (patch raw v crc) v = crc_data raw v"
  by (simp add: crc_data_def sizeof_uint32_def le32_patch apart_def)

lemma crc_data_offset: "sh_offset v' = sh_offset v \<Longrightarrow> crc_data raw v' = crc_data raw v"
  by (simp add: crc_data_def)

lemma std_equal_signature:
  assumes "4 \<le> length raw"
  shows "std_equal elf_signature raw = Some (take 4 raw = elf_signature)"
proof -
  from assms obtain a b c d rest where "raw = a # b # c # d # rest"
    by (cases raw; cases "tl raw"; cases "tl (tl raw)"; cases "tl (tl (tl raw))") auto
  then show ?thesis
    by (auto simp: elf_signature_def)
qed

subsection \<open>The program\<close>

lemma process_Inr_decoded:
  "process raw = Inr (crc, out) \<longleftrightarrow>
     validate raw = Inr (decode_header raw)
     \<and> locate raw (decode_header raw) = Inr (sections raw (decode_header raw) 1)
     \<and> crc = checksum raw
     \<and> out = patch raw (sections raw (decode_header raw) 1) crc"
  by (auto simp: process_Inr validate_Inr locate_Inr checksum_def)

lemma process_reports:
  "process raw = Inl (Reported e) \<Longrightarrow>
     e \<in> {InvalidSignature, TooSmallForHeader, TooFewSections, TooSmallForSectionTable,
          WrongSectionType, TooSmallForVectorTable}"
  by (auto simp: process_def validate_def locate_def Let_def
      split: sum.splits option.splits bool.splits if_splits)

lemma main_failure:
  assumes "1 < length argv" and "get_raw_file files (argv ! 1) \<noteq> []"
    and "process (get_raw_file files (argv ! 1)) = Inl (Reported e)"
  shows "main argv wr files = Exited (- 1) [banner, message e] files"
  using assms by (simp add: main_def Let_def)

lemma main_success:
  assumes "1 < length argv" and "get_raw_file files (argv ! 1) \<noteq> []"
    and "process (get_raw_file files (argv ! 1)) = Inr (crc, patched)"
  shows "main argv wr files =
     Exited 0 [banner, signature_line crc, ''Processing completed, success'']
       (write_file wr files (argv ! 1) patched)"
  using assms by (simp add: main_def Let_def)

lemma main_Exited_0:
  "main argv wr files = Exited 0 out files' \<longleftrightarrow>
     1 < length argv \<and> get_raw_file files (argv ! 1) \<noteq> []
     \<and> (\<exists>crc patched. process (get_raw_file files (argv ! 1)) = Inr (crc, patched)
           \<and> out = [banner, signature_line crc, ''Processing completed, success'']
           \<and> files' = write_file wr files (argv ! 1) patched)"
  by (auto simp: main_def Let_def split: sum.splits failure.splits)

lemma main_Exited_nonzero:
  "main argv wr files = Exited c out files' \<Longrightarrow> c \<noteq> 0 \<Longrightarrow> files' = files \<and> c = - 1"
  by (auto simp: main_def Let_def split: sum.splits failure.splits if_splits)

lemma exit_code_main:
  "exit_code (main argv wr files) = exit_code (main argv wr' files)"
  by (simp add: main_def Let_def split: sum.splits failure.splits prod.splits)

lemma main_nonzero_report:
  assumes "exit_code (main argv wr files) = Some c" and "c \<noteq> 0"
  shows "\<exists>e. main argv wr files = Exited (- 1) [banner, message e] files"
proof (cases "length argv \<le> 1")
  case True
  then have "main argv wr files = Exited (- 1) [banner, message MissingArgument] files"
    by (simp add: main_def)
  then show ?thesis ..
next
  case False
  show ?thesis
  proof (cases "get_raw_file files (argv ! 1) = []")
    case True
    with False
    have "main argv wr files = Exited (- 1) [banner, message EmptyOrUnreadableFile] files"
      by (simp add: main_def)
    then show ?thesis ..
  next
    case raw: False
    show ?thesis
    proof (cases "process (get_raw_file files (argv ! 1))")
      case (Inl f)
      show ?thesis
      proof (cases f)
        case (Reported e)
        with False raw Inl have "main argv wr files = Exited (- 1) [banner, message e] files"
          by (simp add: main_def Let_def)
        then show ?thesis ..
      next
        case OutOfBoundsRead
        with False raw Inl have "main argv wr files = Undefined"
          by (simp add: main_def Let_def)
        with assms(1) show ?thesis
          by simp
      qed
    next
      case (Inr r)
      with False raw have "exit_code (main argv wr files) = Some 0"
        by (simp add: main_def Let_def split: prod.splits)
      with assms show ?thesis
        by simp
    qed
  qed
qed

lemma inj_message: "message e = message e' \<longleftrightarrow> e = e'"
  by (cases e; cases e') simp_all


subsection \<open>The image with the words 1 to 7\<close>

lemma crc_data_image:
  "crc_data (fixture es n t 132 vector_bytes)
     \<lparr> sh_name = 0, sh_type = t, sh_flags = 0, sh_addr = 0, sh_offset = 132, sh_size = 0,
       sh_link = 0, sh_info = 0, sh_addralign = 0, sh_entsize = 0 \<rparr> = [1, 2, 3, 4, 5, 6, 7]"
  by (simp add: crc_data_def sizeof_uint32_def upt_rec [of _ "numeral _"] le32_def
      fixture_simps vector_bytes_def nth_append)

lemma calculate_crc_scenario: "calculate_crc [1, 2, 3, 4, 5, 6, 7] = 0xffffffe4"
  by (simp add: calculate_crc_def)

lemma process_image:
  "process (fixture es 2 1 132 vector_bytes) =
     Inr (0xffffffe4,
       (fixture es 2 1 132 vector_bytes)[160 := 0xe4, 161 := 0xff, 162 := 0xff, 163 := 0xff])"
  by (simp add: process_def validate_fixture locate_fixture e_shoff_fixture
      length_vector_bytes sections_1_fixture crc_data_image calculate_crc_scenario
      patch_def sizeof_uint32_def Let_def)

lemma signature_line_scenario:
  "signature_line 0xffffffe4
     = ''Signature over range: 0x00000000 - 00000018: 0000001c = ffffffe4''"
  by (simp add: signature_line_def hex8_def hex_digit_def sizeof_uint32_def)

lemma checksum_image: "checksum (fixture es n t 132 vector_bytes) = 0xffffffe4"
  by (simp add: checksum_def sections_1_fixture e_shoff_fixture crc_data_image
      calculate_crc_scenario)

subsection \<open>The checksum\<close>

lemma foldl_add_u32: "foldl (\<lambda>ret d. ret + d) (a :: u32) ws = a + sum_list ws"
  by (induction ws arbitrary: a) (simp_all add: add.assoc)

lemma calculate_crc_sum_list: "calculate_crc ws = 0 - sum_list ws"
  by (simp add: calculate_crc_def foldl_add_u32)

lemma unat_neg_u32: "unat (0 - (t :: u32)) = (2 ^ 32 - unat t) mod 2 ^ 32"
proof (cases "t = 0")
  case True
  then show ?thesis by simp
next
  case False
  then have "unat t \<noteq> 0"
    by (simp add: unat_eq_0)
  moreover have "unat t < 2 ^ 32"
    using unsigned_less [of t] by simp
  ultimately show ?thesis
    using unat_sub_if' [of 0 t] by simp
qed

text \<open>
  Claim C1. For seven 32-bit words the checksum is the negated sum in wrap-around
  arithmetic: as a number it is \<open>(2 ^ 32 - (w0 + ... + w6) mod 2 ^ 32) mod 2 ^ 32\<close>, and
  the seven words plus the checksum add up to 0 modulo \<open>2 ^ 32\<close>, both as words and as
  numbers. The function is defined for every input.
\<close>

theorem calculate_crc_negated_sum:
  fixes w0 w1 w2 w3 w4 w5 w6 :: u32
  shows "calculate_crc [w0, w1, w2, w3, w4, w5, w6] = 0 - (w0 + w1 + w2 + w3 + w4 + w5 + w6)
    \<and> w0 + w1 + w2 + w3 + w4 + w5 + w6 + calculate_crc [w0, w1, w2, w3, w4, w5, w6] = 0
    \<and> unat (calculate_crc [w0, w1, w2, w3, w4, w5, w6]) =
        (2 ^ 32 - (unat w0 + unat w1 + unat w2 + unat w3 + unat w4 + unat w5 + unat w6) mod 2 ^ 32)
          mod 2 ^ 32
    \<and> (unat w0 + unat w1 + unat w2 + unat w3 + unat w4 + unat w5 + unat w6
          + unat (calculate_crc [w0, w1, w2, w3, w4, w5, w6])) mod 2 ^ 32 = 0"
proof -
  let ?c = "calculate_crc [w0, w1, w2, w3, w4, w5, w6]"
  let ?t = "w0 + w1 + w2 + w3 + w4 + w5 + w6"
  let ?s = "unat w0 + unat w1 + unat w2 + unat w3 + unat w4 + unat w5 + unat w6"
  have c: "?c = 0 - ?t"
    by (simp add: calculate_crc_def)
  have z: "?t + ?c = 0"
    by (simp add: c)
  have t: "unat ?t = ?s mod 2 ^ 32"
    by (simp add: unat_word_ariths mod_simps)
  have "unat (0 - ?t) = (2 ^ 32 - unat ?t) mod 2 ^ 32"
    by (rule unat_neg_u32)
  then have u: "unat ?c = (2 ^ 32 - ?s mod 2 ^ 32) mod 2 ^ 32"
    by (simp only: c t)
  have "unat (?t + ?c) = (unat ?t + unat ?c) mod 2 ^ 32"
    by (simp add: unat_word_ariths)
  then have "(?s mod 2 ^ 32 + unat ?c) mod 2 ^ 32 = 0"
    by (simp only: z t unat_0)
  then have m: "(?s + unat ?c) mod 2 ^ 32 = 0"
    by (simp add: mod_simps)
  from c z u m show ?thesis
    by blast
qed


subsection \<open>Locating the vector table\<close>

text \<open>
  Claim C2. On an image that passed validation, the locator reports the wrong section
  type exactly when \<open>sh_type\<close> of section 1 is not 1; otherwise it reports a file too small
  for the vectors exactly when the file is shorter than \<open>sh_offset + 32\<close>; otherwise it
  returns section 1. The program as a whole ends the same way.
\<close>

theorem locate_outcome:
  assumes "validate raw = Inr h"
  shows "(locate raw h = Inl (Reported WrongSectionType) \<longleftrightarrow> sh_type (sections raw h 1) \<noteq> 1)
    \<and> (locate raw h = Inl (Reported TooSmallForVectorTable) \<longleftrightarrow>
         sh_type (sections raw h 1) = 1
           \<and> length raw < unat (sh_offset (sections raw h 1)) + 32)
    \<and> (locate raw h = Inr (sections raw h 1) \<longleftrightarrow>
         sh_type (sections raw h 1) = 1
           \<and> unat (sh_offset (sections raw h 1)) + 32 \<le> length raw)
    \<and> (process raw = Inl (Reported WrongSectionType) \<longleftrightarrow> sh_type (sections raw h 1) \<noteq> 1)
    \<and> (process raw = Inl (Reported TooSmallForVectorTable) \<longleftrightarrow>
         sh_type (sections raw h 1) = 1
           \<and> length raw < unat (sh_offset (sections raw h 1)) + 32)
    \<and> ((\<exists>crc out. process raw = Inr (crc, out)) \<longleftrightarrow>
         sh_type (sections raw h 1) = 1
           \<and> unat (sh_offset (sections raw h 1)) + 32 \<le> length raw)"
proof -
  let ?v = "sections raw h 1"
  have l: "locate raw h =
      (if sh_type ?v \<noteq> 1 then Inl (Reported WrongSectionType)
       else if length raw < unat (sh_offset ?v) + 32 then Inl (Reported TooSmallForVectorTable)
       else Inr ?v)"
    by (simp add: locate_def Let_def type_progbits_def size_t_vectors)
  have p: "process raw =
      (case locate raw h of
         Inl f \<Rightarrow> Inl f
       | Inr v \<Rightarrow> Inr (calculate_crc (crc_data raw v), patch raw v (calculate_crc (crc_data raw v))))"
    using assms by (simp add: process_def Let_def split: sum.splits)
  show ?thesis
    unfolding p unfolding l by (simp add: not_less)
qed

theorem locate_outcome_witness:
  "validate (fixture 40 2 1 132 (replicate 31 0))
      = Inr (decode_header (fixture 40 2 1 132 (replicate 31 0)))
   \<and> locate (fixture 40 2 1 132 (replicate 31 0))
        (decode_header (fixture 40 2 1 132 (replicate 31 0)))
      = Inl (Reported TooSmallForVectorTable)
   \<and> validate (fixture 40 2 0 132 (replicate 32 0))
      = Inr (decode_header (fixture 40 2 0 132 (replicate 32 0)))
   \<and> process (fixture 40 2 0 132 (replicate 32 0)) = Inl (Reported WrongSectionType)"
proof -
  let ?e = "fixture 40 2 1 132 (replicate 31 0)"
  let ?c = "fixture 40 2 0 132 (replicate 32 0)"
  have e: "validate ?e = Inr (decode_header ?e)"
    by (simp add: validate_fixture)
  have c: "validate ?c = Inr (decode_header ?c)"
    by (simp add: validate_fixture)
  from locate_outcome [OF e]
  have "locate ?e (decode_header ?e) = Inl (Reported TooSmallForVectorTable)"
    by (simp add: sections_1_fixture e_shoff_fixture length_fixture)
  moreover from locate_outcome [OF c] have "process ?c = Inl (Reported WrongSectionType)"
    by (simp add: sections_1_fixture e_shoff_fixture)
  ultimately show ?thesis
    using e c by simp
qed

subsection \<open>The section table bound\<close>

text \<open>
  Claim C5. After the signature, header size and section count checks, a file of exactly
  \<open>e_shoff + e_shnum * 40\<close> bytes passes the section table check and a file one byte
  shorter is reported as too small for the section table; in general the report is made
  exactly when the file is shorter than that bound.
\<close>

theorem section_table_boundary:
  assumes "std_equal elf_signature raw = Some True"
    and "sizeof_header \<le> length raw"
    and "2 \<le> e_shnum (decode_header raw)"
  shows "(length raw
            = unat (e_shoff (decode_header raw))
                + unat (e_shnum (decode_header raw)) * sizeof_sector_header
          \<longrightarrow> validate raw = Inr (decode_header raw))
    \<and> (length raw + 1
            = unat (e_shoff (decode_header raw))
                + unat (e_shnum (decode_header raw)) * sizeof_sector_header
          \<longrightarrow> validate raw = Inl (Reported TooSmallForSectionTable))
    \<and> (validate raw = Inl (Reported TooSmallForSectionTable) \<longleftrightarrow>
          length raw
            < unat (e_shoff (decode_header raw))
                + unat (e_shnum (decode_header raw)) * sizeof_sector_header)"
proof -
  have v: "validate raw =
      (if length raw
           < unat (e_shoff (decode_header raw)) + unat (e_shnum (decode_header raw)) * 40
       then Inl (Reported TooSmallForSectionTable) else Inr (decode_header raw))"
    using assms by (simp add: validate_def Let_def size_t_sections not_less)
  show ?thesis
    unfolding v by (simp add: sizeof_sector_header_def)
qed

theorem section_table_boundary_witness:
  "validate (fixture 40 2 1 132 []) = Inr (decode_header (fixture 40 2 1 132 []))
   \<and> length (fixture 40 2 1 132 []) = 52 + 2 * 40
   \<and> validate (take 131 (fixture 40 2 1 132 [])) = Inl (Reported TooSmallForSectionTable)
   \<and> length (take 131 (fixture 40 2 1 132 [])) + 1 = 52 + 2 * 40"
proof -
  let ?a = "fixture 40 2 1 132 []"
  let ?b = "take 131 (fixture 40 2 1 132 [])"
  have la: "length ?a = 132"
    by (simp add: length_fixture)
  have lb: "length ?b = 131"
    by (simp add: length_fixture)
  have hb: "e_shoff (decode_header ?b) = 52 \<and> e_shnum (decode_header ?b) = 2"
    by (simp add: decode_header_def le32_def le16_def fixture_simps nth_append)
  have sb: "std_equal elf_signature ?b = Some True"
    by (simp add: fixture_simps)
  have "validate ?a = Inr (decode_header ?a)"
    using section_table_boundary [of ?a]
    by (simp add: std_equal_fixture la sizeof_header_def sizeof_sector_header_def
        e_shnum_fixture e_shoff_fixture)
  moreover have "validate ?b = Inl (Reported TooSmallForSectionTable)"
    using section_table_boundary [of ?b]
    by (simp add: sb length_fixture hb sizeof_header_def sizeof_sector_header_def)
  ultimately show ?thesis
    by (simp add: la lb)
qed


subsection \<open>Where section 1 is read\<close>

text \<open>
  Claim C6, as amended. The program never reads \<open>e_shentsize\<close>: section \<open>i\<close> is decoded at
  \<open>e_shoff + i * 40\<close>, the size of the struct, and the section the locator returns is the
  one at \<open>e_shoff + 40\<close>, whose 40 bytes lie inside the file. That is the offset
  \<open>e_shoff + e_shentsize\<close> when \<open>e_shentsize\<close> is 40.
\<close>

theorem section_header_offset:
  assumes "validate raw = Inr h" and "locate raw h = Inr v"
  shows "v = decode_sector_header raw (unat (e_shoff h) + sizeof_sector_header)
    \<and> sections raw h i = decode_sector_header raw (unat (e_shoff h) + i * sizeof_sector_header)
    \<and> unat (e_shoff h) + 2 * sizeof_sector_header \<le> length raw
    \<and> (e_shentsize h = 40 \<longrightarrow>
          v = decode_sector_header raw (unat (e_shoff h) + unat (e_shentsize h)))"
proof -
  have v: "v = sections raw h 1"
    using assms(2) by (simp add: locate_Inr)
  from assms(1) have n: "2 \<le> e_shnum h"
    and t: "unat (e_shoff h) + unat (e_shnum h) * 40 \<le> length raw"
    unfolding validate_Inr by blast+
  from n have "2 \<le> unat (e_shnum h)"
    by (simp add: word_le_nat_alt)
  with t have b: "unat (e_shoff h) + 2 * sizeof_sector_header \<le> length raw"
    by (simp add: sizeof_sector_header_def)
  show ?thesis
    using b by (auto simp: v sections_def sizeof_sector_header_def)
qed

theorem section_header_offset_witness:
  "validate (fixture 40 2 1 132 vector_bytes) = Inr (decode_header (fixture 40 2 1 132 vector_bytes))
   \<and> locate (fixture 40 2 1 132 vector_bytes) (decode_header (fixture 40 2 1 132 vector_bytes))
       = Inr (decode_sector_header (fixture 40 2 1 132 vector_bytes) 92)
   \<and> e_shentsize (decode_header (fixture 40 2 1 132 vector_bytes)) = 40"
proof -
  let ?x = "fixture 40 2 1 132 vector_bytes"
  have l: "length vector_bytes = 32"
    by (simp add: vector_bytes_def le32_bytes_def)
  have a: "validate ?x = Inr (decode_header ?x)"
    by (simp add: validate_fixture)
  have b: "locate ?x (decode_header ?x) = Inr (sections ?x (decode_header ?x) 1)"
    by (simp add: locate_fixture e_shoff_fixture l)
  from section_header_offset [OF a b]
  have "sections ?x (decode_header ?x) 1 = decode_sector_header ?x 92"
    by (simp add: e_shoff_fixture sizeof_sector_header_def)
  with a b show ?thesis
    by (simp add: e_shentsize_fixture)
qed

text \<open>
  As stated, with \<open>e_shentsize\<close> as the stride, the claim fails on an accepted image whose
  \<open>e_shentsize\<close> is 0: the bytes at \<open>e_shoff + 1 * e_shentsize\<close> are the null entry, while
  the locator returns the entry 40 bytes further on.
\<close>

theorem section_header_entsize_counterexample:
  "validate (fixture 0 2 1 132 vector_bytes) = Inr (decode_header (fixture 0 2 1 132 vector_bytes))
   \<and> locate (fixture 0 2 1 132 vector_bytes) (decode_header (fixture 0 2 1 132 vector_bytes))
       = Inr (sections (fixture 0 2 1 132 vector_bytes)
               (decode_header (fixture 0 2 1 132 vector_bytes)) 1)
   \<and> sections (fixture 0 2 1 132 vector_bytes) (decode_header (fixture 0 2 1 132 vector_bytes)) 1
       \<noteq> decode_sector_header (fixture 0 2 1 132 vector_bytes)
           (unat (e_shoff (decode_header (fixture 0 2 1 132 vector_bytes)))
             + 1 * unat (e_shentsize (decode_header (fixture 0 2 1 132 vector_bytes))))"
proof -
  let ?x = "fixture 0 2 1 132 vector_bytes"
  have l: "length vector_bytes = 32"
    by (simp add: vector_bytes_def le32_bytes_def)
  have a: "validate ?x = Inr (decode_header ?x)"
    by (simp add: validate_fixture)
  have b: "locate ?x (decode_header ?x) = Inr (sections ?x (decode_header ?x) 1)"
    by (simp add: locate_fixture e_shoff_fixture l)
  have c: "sh_type (sections ?x (decode_header ?x) 1) = 1"
    by (simp add: sections_1_fixture e_shoff_fixture)
  have d: "sh_type (decode_sector_header ?x 52) = 0"
    by (simp add: decode_sector_header_def le32_def fixture_simps nth_append)
  have "sections ?x (decode_header ?x) 1 \<noteq> decode_sector_header ?x 52"
    using c d by auto
  with a b show ?thesis
    by (simp add: e_shoff_fixture e_shentsize_fixture)
qed

subsection \<open>Files shorter than the signature\<close>

text \<open>
  A non-empty buffer of fewer than four bytes is compared with the signature byte by
  byte. A difference among the bytes present ends the comparison; when all of them match,
  the comparison goes on to read past the end of the buffer.
\<close>

lemma validate_short:
  assumes "raw \<noteq> []" and "length raw < 4"
  shows "validate raw =
     (if raw = take (length raw) elf_signature then Inl OutOfBoundsRead
      else Inl (Reported InvalidSignature))"
proof -
  from assms consider a where "raw = [a]" | a b where "raw = [a, b]"
    | a b c where "raw = [a, b, c]"
    by (cases raw; cases "tl raw"; cases "tl (tl raw)"; cases "tl (tl (tl raw))") auto
  then show ?thesis
    by cases (auto simp: validate_def elf_signature_def)
qed

text \<open>
  Claim C7 at a file that holds only the first byte of the signature, or its first three:
  the comparison of line 137 leaves the buffer and the run is undefined, where the claim
  expects the report of an invalid signature. The size of the buffer is checked only
  afterwards, at line 144.
\<close>

theorem short_signature_prefix_reads_past_buffer:
  "std_equal elf_signature [0x7f] = None
   \<and> validate [0x7f] = Inl OutOfBoundsRead
   \<and> main [''elfdwt'', ''fw.elf''] wr [''fw.elf'' \<mapsto> [0x7f]] = Undefined
   \<and> main [''elfdwt'', ''fw.elf''] wr [''fw.elf'' \<mapsto> [0x7f, 0x45, 0x4c]] = Undefined"
  by (simp add: main_def get_raw_file_def process_def validate_def elf_signature_def)

subsection \<open>Failed checks\<close>

text \<open>
  Claim C3. When a check fails the program prints the line of that check, returns -1 and
  leaves every file as it was, whatever the device would have done with a write: this
  holds for a missing argument, for an empty buffer and for each of the six reports of the
  checks on the buffer. Every run that ends with a code other than 0 has changed no file.
\<close>

theorem failed_check_leaves_files:
  "(length argv \<le> 1 \<longrightarrow>
      main argv wr files = Exited (- 1) [banner, message MissingArgument] files)
   \<and> (1 < length argv \<and> get_raw_file files (argv ! 1) = [] \<longrightarrow>
      main argv wr files = Exited (- 1) [banner, message EmptyOrUnreadableFile] files)
   \<and> (1 < length argv \<and> get_raw_file files (argv ! 1) \<noteq> []
        \<and> process (get_raw_file files (argv ! 1)) = Inl (Reported e) \<longrightarrow>
      e \<in> {InvalidSignature, TooSmallForHeader, TooFewSections, TooSmallForSectionTable,
           WrongSectionType, TooSmallForVectorTable}
      \<and> main argv wr files = Exited (- 1) [banner, message e] files)
   \<and> (main argv wr files = Exited c out files' \<and> c \<noteq> 0 \<longrightarrow> files' = files \<and> c = - 1)"
proof (intro conjI impI)
  assume "length argv \<le> 1"
  then show "main argv wr files = Exited (- 1) [banner, message MissingArgument] files"
    by (simp add: main_def)
next
  assume "1 < length argv \<and> get_raw_file files (argv ! 1) = []"
  then show "main argv wr files = Exited (- 1) [banner, message EmptyOrUnreadableFile] files"
    by (simp add: main_def)
next
  assume "1 < length argv \<and> get_raw_file files (argv ! 1) \<noteq> []
    \<and> process (get_raw_file files (argv ! 1)) = Inl (Reported e)"
  then show "e \<in> {InvalidSignature, TooSmallForHeader, TooFewSections,
      TooSmallForSectionTable, WrongSectionType, TooSmallForVectorTable}"
    using process_reports [of "get_raw_file files (argv ! 1)" e] by simp
next
  assume "1 < length argv \<and> get_raw_file files (argv ! 1) \<noteq> []
    \<and> process (get_raw_file files (argv ! 1)) = Inl (Reported e)"
  then show "main argv wr files = Exited (- 1) [banner, message e] files"
    by (simp add: main_failure)
next
  assume "main argv wr files = Exited c out files' \<and> c \<noteq> 0"
  then show "files' = files"
    using main_Exited_nonzero [of argv wr files c out files'] by simp
next
  assume "main argv wr files = Exited c out files' \<and> c \<noteq> 0"
  then show "c = - 1"
    using main_Exited_nonzero [of argv wr files c out files'] by simp
qed

theorem failed_check_leaves_files_witness:
  "main [''elfdwt''] (Accepts 0) Map.empty
      = Exited (- 1) [banner, message MissingArgument] Map.empty
   \<and> main [''elfdwt'', ''fw.elf''] (Accepts 0) Map.empty
      = Exited (- 1) [banner, message EmptyOrUnreadableFile] Map.empty
   \<and> process [0x7f, 0x45, 0x4c, 0x47] = Inl (Reported InvalidSignature)
   \<and> main [''elfdwt'', ''fw.elf''] (Accepts 4) [''fw.elf'' \<mapsto> [0x7f, 0x45, 0x4c, 0x47]]
      = Exited (- 1) [banner, message InvalidSignature] [''fw.elf'' \<mapsto> [0x7f, 0x45, 0x4c, 0x47]]"
proof -
  have p: "process [0x7f, 0x45, 0x4c, 0x47] = Inl (Reported InvalidSignature)"
    by (simp add: process_def validate_def elf_signature_def)
  have a: "main [''elfdwt''] (Accepts 0) Map.empty
      = Exited (- 1) [banner, message MissingArgument] Map.empty"
    using failed_check_leaves_files [of "[''elfdwt'']" "Accepts 0" Map.empty]
    by simp
  have b: "main [''elfdwt'', ''fw.elf''] (Accepts 0) Map.empty
      = Exited (- 1) [banner, message EmptyOrUnreadableFile] Map.empty"
    using failed_check_leaves_files [of "[''elfdwt'', ''fw.elf'']" "Accepts 0" Map.empty]
    by (simp add: get_raw_file_def)
  have c: "main [''elfdwt'', ''fw.elf''] (Accepts 4) [''fw.elf'' \<mapsto> [0x7f, 0x45, 0x4c, 0x47]]
      = Exited (- 1) [banner, message InvalidSignature] [''fw.elf'' \<mapsto> [0x7f, 0x45, 0x4c, 0x47]]"
    using failed_check_leaves_files [of "[''elfdwt'', ''fw.elf'']" "Accepts 4"
        "[''fw.elf'' \<mapsto> [0x7f, 0x45, 0x4c, 0x47]]" InvalidSignature]
    by (simp add: p get_raw_file_def)
  from a b c p show ?thesis
    by blast
qed

subsection \<open>What a successful run writes\<close>

text \<open>
  Claim C4. When the run ends with code 0 and the device took the whole buffer, the file
  has its old length, every byte outside \<open>[offset + 28, offset + 32)\<close> is the old one and
  those four bytes are the checksum, lowest byte first; \<open>offset\<close> is \<open>sh_offset\<close> of section
  1 and the slot lies inside the file. No other file has changed.
\<close>

theorem patched_file_frame:
  assumes "1 < length argv" and "files (argv ! 1) = Some raw"
    and "main argv (Accepts n) files = Exited 0 out files'" and "length raw \<le> n"
  shows "\<exists>new. files' (argv ! 1) = Some new
    \<and> length new = length raw
    \<and> (\<forall>i. i < vectors_offset raw + 28 \<or> vectors_offset raw + 32 \<le> i \<longrightarrow> new ! i = raw ! i)
    \<and> take 4 (drop (vectors_offset raw + 28) new) = le32_bytes (checksum raw)
    \<and> vectors_offset raw + 32 \<le> length raw
    \<and> (\<forall>file. file \<noteq> argv ! 1 \<longrightarrow> files' file = files file)"
proof -
  let ?v = "sections raw (decode_header raw) 1"
  let ?new = "patch raw ?v (checksum raw)"
  have r: "get_raw_file files (argv ! 1) = raw"
    using assms(2) by (simp add: get_raw_file_def)
  from assms(3) obtain crc patched where p: "process raw = Inr (crc, patched)"
    and f: "files' = write_file (Accepts n) files (argv ! 1) patched"
    unfolding main_Exited_0 r by blast
  from p have l: "locate raw (decode_header raw) = Inr ?v" and c: "patched = ?new"
    unfolding process_Inr_decoded by blast+
  from l have b: "vectors_offset raw + 32 \<le> length raw"
    by (simp add: locate_Inr vectors_offset_def)
  have w: "files' = files(argv ! 1 \<mapsto> ?new)"
    using assms(4) by (simp add: f c write_file_def length_patch)
  have "files' (argv ! 1) = Some ?new"
    by (simp add: w)
  moreover have "length ?new = length raw"
    by (simp add: length_patch)
  moreover have "\<forall>i. i < vectors_offset raw + 28 \<or> vectors_offset raw + 32 \<le> i \<longrightarrow> ?new ! i = raw ! i"
    by (simp add: nth_patch_outside vectors_offset_def)
  moreover have "take 4 (drop (vectors_offset raw + 28) ?new) = le32_bytes (checksum raw)"
    using b by (simp add: slot_patch vectors_offset_def)
  moreover have "\<forall>file. file \<noteq> argv ! 1 \<longrightarrow> files' file = files file"
    by (simp add: w)
  ultimately show ?thesis
    using b by blast
qed

theorem patched_file_frame_witness:
  "main [''elfdwt'', ''fw.elf''] (Accepts 164) [''fw.elf'' \<mapsto> fixture 40 2 1 132 vector_bytes]
     = Exited 0
        [banner, ''Signature over range: 0x00000000 - 00000018: 0000001c = ffffffe4'',
         ''Processing completed, success'']
        [''fw.elf'' \<mapsto>
          (fixture 40 2 1 132 vector_bytes)[160 := 0xe4, 161 := 0xff, 162 := 0xff, 163 := 0xff]]
   \<and> length ((fixture 40 2 1 132 vector_bytes)[160 := 0xe4, 161 := 0xff, 162 := 0xff, 163 := 0xff])
       = length (fixture 40 2 1 132 vector_bytes)
   \<and> take 4 (drop 160
         ((fixture 40 2 1 132 vector_bytes)[160 := 0xe4, 161 := 0xff, 162 := 0xff, 163 := 0xff]))
       = [0xe4, 0xff, 0xff, 0xff]"
proof -
  let ?img = "fixture 40 2 1 132 vector_bytes"
  let ?new = "?img[160 := 0xe4, 161 := 0xff, 162 := 0xff, 163 := 0xff]"
  let ?files = "[''fw.elf'' \<mapsto> ?img]"
  let ?out = "[banner, ''Signature over range: 0x00000000 - 00000018: 0000001c = ffffffe4'',
         ''Processing completed, success'']"
  have l: "length ?img = 164"
    by (simp add: length_fixture length_vector_bytes)
  have r: "get_raw_file ?files ([''elfdwt'', ''fw.elf''] ! 1) = ?img"
    by (simp add: get_raw_file_def)
  have n: "?img \<noteq> []"
    using l by auto
  have "main [''elfdwt'', ''fw.elf''] (Accepts 164) ?files
     = Exited 0 [banner, signature_line 0xffffffe4, ''Processing completed, success'']
        (write_file (Accepts 164) ?files ''fw.elf'' ?new)"
    using main_success [of "[''elfdwt'', ''fw.elf'']" ?files "0xffffffe4" ?new "Accepts 164"]
    unfolding r by (simp add: n process_image)
  then have m: "main [''elfdwt'', ''fw.elf''] (Accepts 164) ?files
     = Exited 0 ?out [''fw.elf'' \<mapsto> ?new]"
    by (simp add: signature_line_scenario write_file_def l)
  have "\<exists>new. [''fw.elf'' \<mapsto> ?new] ([''elfdwt'', ''fw.elf''] ! 1) = Some new
    \<and> length new = length ?img
    \<and> (\<forall>i. i < vectors_offset ?img + 28 \<or> vectors_offset ?img + 32 \<le> i \<longrightarrow> new ! i = ?img ! i)
    \<and> take 4 (drop (vectors_offset ?img + 28) new) = le32_bytes (checksum ?img)
    \<and> vectors_offset ?img + 32 \<le> length ?img
    \<and> (\<forall>file. file \<noteq> [''elfdwt'', ''fw.elf''] ! 1 \<longrightarrow>
          [''fw.elf'' \<mapsto> ?new] file = ?files file)"
    by (rule patched_file_frame [OF _ _ m]) (simp_all add: l)
  then have "length ?new = length ?img
      \<and> take 4 (drop (vectors_offset ?img + 28) ?new) = le32_bytes (checksum ?img)"
    by auto
  then have "length ?new = length ?img \<and> take 4 (drop 160 ?new) = [0xe4, 0xff, 0xff, 0xff]"
    by (simp add: vectors_offset_fixture checksum_image le32_bytes_def)
  with m show ?thesis
    by blast
qed

subsection \<open>The exit code and the write\<close>

text \<open>
  Claim C8, as amended. The program does not look at the result of the write: its exit
  code is the same for every behaviour of the device. Once the checks have passed it
  prints the success line and ends with code 0, also when the file could not be opened for
  writing or took no byte. A code other than 0 comes with the line of one of the eight
  checks and never with a report about the write.
\<close>

theorem exit_code_ignores_write:
  "exit_code (main argv wr files) = exit_code (main argv wr' files)
   \<and> (1 < length argv \<and> get_raw_file files (argv ! 1) \<noteq> []
        \<and> process (get_raw_file files (argv ! 1)) = Inr (crc, patched) \<longrightarrow>
      main argv wr files =
        Exited 0 [banner, signature_line crc, ''Processing completed, success'']
          (write_file wr files (argv ! 1) patched))
   \<and> (exit_code (main argv wr files) = Some c \<and> c \<noteq> 0 \<longrightarrow>
      (\<exists>e. main argv wr files = Exited (- 1) [banner, message e] files))"
  using exit_code_main [of argv wr files wr'] main_success [of argv files crc patched wr]
    main_nonzero_report [of argv wr files c]
  by blast

theorem exit_code_ignores_write_witness:
  "main [''elfdwt'', ''fw.elf''] CannotOpen [''fw.elf'' \<mapsto> fixture 40 2 1 132 vector_bytes]
     = Exited 0
        [banner, ''Signature over range: 0x00000000 - 00000018: 0000001c = ffffffe4'',
         ''Processing completed, success'']
        [''fw.elf'' \<mapsto> fixture 40 2 1 132 vector_bytes]
   \<and> exit_code
        (main [''elfdwt'', ''fw.elf''] (Accepts 0) [''fw.elf'' \<mapsto> fixture 40 2 1 132 vector_bytes])
     = Some 0"
proof -
  let ?files = "[''fw.elf'' \<mapsto> fixture 40 2 1 132 vector_bytes]"
  let ?new = "(fixture 40 2 1 132 vector_bytes)[160 := 0xe4, 161 := 0xff, 162 := 0xff, 163 := 0xff]"
  note t = exit_code_ignores_write [where argv = "[''elfdwt'', ''fw.elf'']" and files = ?files
      and crc = "0xffffffe4" and patched = ?new and wr = CannotOpen and wr' = "Accepts 0"]
  have r: "get_raw_file ?files ([''elfdwt'', ''fw.elf''] ! 1) = fixture 40 2 1 132 vector_bytes"
    by (simp add: get_raw_file_def)
  have n: "fixture 40 2 1 132 vector_bytes \<noteq> []"
    using length_fixture [of 40 2 1 132 vector_bytes] by auto
  have m: "main [''elfdwt'', ''fw.elf''] CannotOpen ?files
     = Exited 0 [banner, signature_line 0xffffffe4, ''Processing completed, success'']
        (write_file CannotOpen ?files ([''elfdwt'', ''fw.elf''] ! 1) ?new)"
    using t unfolding r by (simp add: n process_image)
  then have "exit_code (main [''elfdwt'', ''fw.elf''] (Accepts 0) ?files) = Some 0"
    using t by simp
  with m show ?thesis
    by (simp add: signature_line_scenario write_file_def)
qed

text \<open>
  As stated the claim fails: on a device that takes 10 bytes the file is cut down from 164
  bytes to 10, no error is printed and the exit code is 0.
\<close>

theorem write_failure_exit_counterexample:
  "main [''elfdwt'', ''fw.elf''] (Accepts 10) [''fw.elf'' \<mapsto> fixture 40 2 1 132 vector_bytes]
     = Exited 0
        [banner, ''Signature over range: 0x00000000 - 00000018: 0000001c = ffffffe4'',
         ''Processing completed, success'']
        [''fw.elf'' \<mapsto> take 10 (fixture 40 2 1 132 vector_bytes)]
   \<and> length (take 10 (fixture 40 2 1 132 vector_bytes)) = 10
   \<and> length (fixture 40 2 1 132 vector_bytes) = 164"
proof -
  let ?files = "[''fw.elf'' \<mapsto> fixture 40 2 1 132 vector_bytes]"
  have r: "get_raw_file ?files ([''elfdwt'', ''fw.elf''] ! 1) = fixture 40 2 1 132 vector_bytes"
    by (simp add: get_raw_file_def)
  have n: "fixture 40 2 1 132 vector_bytes \<noteq> []"
    using length_fixture [of 40 2 1 132 vector_bytes] by auto
  have "main [''elfdwt'', ''fw.elf''] (Accepts 10) ?files
     = Exited 0 [banner, signature_line 0xffffffe4, ''Processing completed, success'']
        (write_file (Accepts 10) ?files ''fw.elf''
          ((fixture 40 2 1 132 vector_bytes)[160 := 0xe4, 161 := 0xff, 162 := 0xff, 163 := 0xff]))"
    using main_success [of "[''elfdwt'', ''fw.elf'']" ?files "0xffffffe4"
        "(fixture 40 2 1 132 vector_bytes)[160 := 0xe4, 161 := 0xff, 162 := 0xff, 163 := 0xff]"
        "Accepts 10"]
    unfolding r by (simp add: n process_image)
  then show ?thesis
    by (simp add: signature_line_scenario write_file_def length_fixture length_vector_bytes)
qed

subsection \<open>The report for an empty buffer\<close>

text \<open>
  Claim C9, as amended. When the loader yields no bytes, because the file is empty or
  because it could not be opened, the program prints \<open>Error: could not open file\<close> and
  returns -1 without touching a file. No other exit prints that line, and the line does
  not name the ELF format.
\<close>

theorem empty_buffer_report:
  assumes "1 < length argv" and "get_raw_file files (argv ! 1) = []"
  shows "main argv wr files = Exited (- 1) [banner, ''Error: could not open file''] files
    \<and> (message e = ''Error: could not open file'' \<longleftrightarrow> e = EmptyOrUnreadableFile)
    \<and> \<not> names_elf ''Error: could not open file''"
proof -
  have "main argv wr files = Exited (- 1) [banner, message EmptyOrUnreadableFile] files"
    using assms by (simp add: main_def)
  moreover have "message e = message EmptyOrUnreadableFile \<longleftrightarrow> e = EmptyOrUnreadableFile"
    by (rule inj_message)
  moreover have "\<not> names_elf ''Error: could not open file''"
    by (simp add: names_elf_def)
  ultimately show ?thesis
    by simp
qed

theorem empty_buffer_report_witness:
  "main [''elfdwt'', ''fw.elf''] (Accepts 0) Map.empty
     = Exited (- 1) [banner, ''Error: could not open file''] Map.empty"
  using empty_buffer_report [of "[''elfdwt'', ''fw.elf'']" Map.empty "Accepts 0"]
  by (simp add: get_raw_file_def)

text \<open>
  As stated the claim fails: for an existing, empty file the line printed is the one for a
  file that cannot be opened, and unlike the reports of the structural checks it does not
  name the format.
\<close>

theorem empty_file_message_counterexample:
  "main [''elfdwt'', ''fw.elf''] (Accepts 0) [''fw.elf'' \<mapsto> []]
     = Exited (- 1) [banner, ''Error: could not open file''] [''fw.elf'' \<mapsto> []]
   \<and> \<not> names_elf ''Error: could not open file''
   \<and> names_elf (message InvalidSignature)"
  by (simp add: main_def get_raw_file_def names_elf_def)

subsection \<open>Patching twice\<close>

text \<open>
  Claim C10, as amended. On an accepted image whose checksum slot meets none of the fields
  the checks read, running the checks, the checksum and the patch on the patched buffer
  gives the same checksum and the same bytes again.
\<close>

theorem patch_twice:
  assumes "process raw = Inr (crc, out)" and "slot_clear raw"
  shows "process out = Inr (crc, out)"
proof -
  let ?h = "decode_header raw"
  let ?v = "sections raw ?h 1"
  let ?s = "unat (e_shoff ?h) + sizeof_sector_header"
  from assms(1) have vd: "validate raw = Inr ?h" and lc: "locate raw ?h = Inr ?v"
    and crc: "crc = calculate_crc (crc_data raw ?v)" and out: "out = patch raw ?v crc"
    unfolding process_Inr_decoded checksum_def by blast+
  from assms(2) have a0: "apart (unat (sh_offset ?v) + 28) 4 0 4"
    and a32: "apart (unat (sh_offset ?v) + 28) 4 32 4"
    and a48: "apart (unat (sh_offset ?v) + 28) 4 48 2"
    and at: "apart (unat (sh_offset ?v) + 28) 4 (?s + 4) 4"
    and ao: "apart (unat (sh_offset ?v) + 28) 4 (?s + 16) 4"
    unfolding slot_clear_def vectors_offset_def Let_def by blast+
  from vd have sg: "std_equal elf_signature raw = Some True" and len: "52 \<le> length raw"
    and num: "2 \<le> e_shnum ?h"
    and tab: "unat (e_shoff ?h) + unat (e_shnum ?h) * 40 \<le> length raw"
    unfolding validate_Inr by blast+
  from lc have ty: "sh_type ?v = 1" and vec: "unat (sh_offset ?v) + 32 \<le> length raw"
    unfolding locate_Inr by blast+
  have lo: "length out = length raw"
    by (simp add: out length_patch)
  have shoff: "e_shoff (decode_header out) = e_shoff ?h"
    using a32 by (simp add: decode_header_def out le32_patch)
  have shnum: "e_shnum (decode_header out) = e_shnum ?h"
    using a48 by (simp add: decode_header_def out le16_patch)
  have "std_equal elf_signature out = Some (take 4 out = elf_signature)"
    using len by (simp add: std_equal_signature lo)
  moreover have "take 4 out = take 4 raw"
    using a0 unfolding out by (rule take4_patch)
  moreover have "std_equal elf_signature raw = Some (take 4 raw = elf_signature)"
    using len by (simp add: std_equal_signature)
  ultimately have sg': "std_equal elf_signature out = Some True"
    using sg by simp
  have vd': "validate out = Inr (decode_header out)"
    unfolding validate_Inr shoff shnum lo using sg' len num tab by simp
  let ?v' = "sections out (decode_header out) 1"
  have "sh_type ?v' = le32 out (?s + 4)"
    by (simp add: sections_def decode_sector_header_def shoff)
  also have "\<dots> = le32 raw (?s + 4)"
    unfolding out using at by (rule le32_patch)
  also have "\<dots> = sh_type ?v"
    by (simp add: sections_def decode_sector_header_def)
  finally have ty': "sh_type ?v' = sh_type ?v" .
  have "sh_offset ?v' = le32 out (?s + 16)"
    by (simp add: sections_def decode_sector_header_def shoff)
  also have "\<dots> = le32 raw (?s + 16)"
    unfolding out using ao by (rule le32_patch)
  also have "\<dots> = sh_offset ?v"
    by (simp add: sections_def decode_sector_header_def)
  finally have off': "sh_offset ?v' = sh_offset ?v" .
  have lc': "locate out (decode_header out) = Inr ?v'"
    unfolding locate_Inr ty' off' lo using ty vec by simp
  have "crc_data out ?v' = crc_data out ?v"
    using off' by (rule crc_data_offset)
  also have "\<dots> = crc_data raw ?v"
    unfolding out by (rule crc_data_patch)
  finally have crc': "calculate_crc (crc_data out ?v') = crc"
    by (simp add: crc)
  have "patch out ?v' crc = patch out ?v crc"
    using off' by (rule patch_offset)
  also have "\<dots> = out"
    unfolding out using vec by (rule patch_patch)
  finally have out': "patch out ?v' crc = out" .
  show ?thesis
    unfolding process_Inr using vd' lc' crc' out' by auto
qed

theorem patch_twice_witness:
  "process (fixture 40 2 1 132 vector_bytes)
     = Inr (0xffffffe4,
         (fixture 40 2 1 132 vector_bytes)[160 := 0xe4, 161 := 0xff, 162 := 0xff, 163 := 0xff])
   \<and> slot_clear (fixture 40 2 1 132 vector_bytes)
   \<and> process
        ((fixture 40 2 1 132 vector_bytes)[160 := 0xe4, 161 := 0xff, 162 := 0xff, 163 := 0xff])
     = Inr (0xffffffe4,
         (fixture 40 2 1 132 vector_bytes)[160 := 0xe4, 161 := 0xff, 162 := 0xff, 163 := 0xff])"
proof -
  have c: "slot_clear (fixture 40 2 1 132 vector_bytes)"
    by (simp add: slot_clear_def vectors_offset_fixture e_shoff_fixture apart_def
        sizeof_sector_header_def)
  show ?thesis
    using patch_twice [OF process_image [of 40] c] process_image [of 40] c by simp
qed

lemma patched_overlap_image:
  "(fixture 40 2 1 80 [])[108 := 0xff, 109 := 0xff, 110 := 0xff, 111 := 0xff]
     = fixture 40 2 1 0xffffffff []"
  by (simp add: fixture_simps list_update_append)

text \<open>
  As stated, for every accepted image, the claim fails: in the image below the vector
  table starts inside the section table, so that the checksum slot is the \<open>sh_offset\<close>
  field of section 1. The first pass stores \<open>0xffffffff\<close> there and the second pass
  rejects the patched image.
\<close>

theorem patch_twice_counterexample:
  "process (fixture 40 2 1 80 []) = Inr (0xffffffff, fixture 40 2 1 0xffffffff [])
   \<and> process (fixture 40 2 1 0xffffffff []) = Inl (Reported TooSmallForVectorTable)"
proof -
  have d: "crc_data (fixture 40 2 1 80 [])
     \<lparr> sh_name = 0, sh_type = 1, sh_flags = 0, sh_addr = 0, sh_offset = 80, sh_size = 0,
       sh_link = 0, sh_info = 0, sh_addralign = 0, sh_entsize = 0 \<rparr> = [0, 0, 0, 0, 1, 0, 0]"
    by (simp add: crc_data_def sizeof_uint32_def upt_rec [of _ "numeral _"] le32_def
        fixture_simps nth_append)
  have c: "calculate_crc [0, 0, 0, 0, 1, 0, 0] = 0xffffffff"
    by (simp add: calculate_crc_def)
  have "process (fixture 40 2 1 80 []) =
     Inr (0xffffffff, (fixture 40 2 1 80 [])[108 := 0xff, 109 := 0xff, 110 := 0xff, 111 := 0xff])"
    by (simp add: process_def validate_fixture locate_fixture e_shoff_fixture
        sections_1_fixture d c patch_def sizeof_uint32_def Let_def)
  moreover have "process (fixture 40 2 1 0xffffffff []) = Inl (Reported TooSmallForVectorTable)"
    by (simp add: process_def validate_fixture locate_fixture e_shoff_fixture)
  ultimately show ?thesis
    by (simp add: patched_overlap_image)
qed

end
